theory Spec2Isabelle
  imports Complex_Main
begin

section \<open>Data model of the news application (main.py)\<close>

text \<open>
  Articles and favourites are Python dictionaries decoded from JSON. A dictionary is an
  association list from keys to values; it is read through \<open>map_of\<close>, so the order of
  the entries does not matter for look-up or for equality (\<open>dict_eq\<close>). Field values
  are the JSON scalars null, string and integer. Floating-point numbers, booleans (which
  Python equates with 0 and 1) and nested containers are outside the model.
\<close>

datatype pyval = PNone | PStr string | PInt int

type_synonym pydict = "(string \<times> pyval) list"

text \<open>\<open>d.get(k)\<close>: the value, or None when the key is missing.\<close>

definition dict_get :: "pydict \<Rightarrow> string \<Rightarrow> pyval" where
  "dict_get d k = (case map_of d k of None \<Rightarrow> PNone | Some v \<Rightarrow> v)"

text \<open>\<open>d.get(k, dflt)\<close>: the value, or the given default when the key is missing.\<close>

definition dict_get_default :: "pydict \<Rightarrow> string \<Rightarrow> pyval \<Rightarrow> pyval" where
  "dict_get_default d k dflt = (case map_of d k of None \<Rightarrow> dflt | Some v \<Rightarrow> v)"

text \<open>\<open>a == b\<close> on dictionaries: the same keys, each with the same value.\<close>

definition dict_eq :: "pydict \<Rightarrow> pydict \<Rightarrow> bool" where
  "dict_eq a b = list_all (\<lambda>k. map_of a k = map_of b k) (map fst a @ map fst b)"

text \<open>Python truthiness of a value (\<open>if title\<close>, \<open>if not text\<close>).\<close>

fun truthy :: "pyval \<Rightarrow> bool" where
  "truthy PNone = False"
| "truthy (PStr s) = (s \<noteq> [])"
| "truthy (PInt n) = (n \<noteq> 0)"

text \<open>
  The exceptions the modelled code can raise. \<open>ValueError\<close> is raised by
  \<open>list.remove\<close>, \<open>KeyError\<close> by \<open>self.countries[code]\<close>, \<open>OSError\<close> by
  \<open>open\<close>; \<open>ClientError\<close> and \<open>DecodeError\<close> come from the HTTP session and from
  \<open>response.json()\<close> and carry the text of the exception.
\<close>

datatype py_error =
    ValueError
  | KeyError string
  | OSError
  | ClientError string
  | DecodeError string

text \<open>
  The texts shown to the user are Japanese literals and f-strings in the source. Each one
  is a constructor here, with the values the f-string interpolates as arguments:
  \<open>StatusFetching\<close> is the "fetching news" text, \<open>StatusNotFound name\<close> the
  "no news found for (country name)" text, \<open>StatusFetched n\<close> the "fetched n items"
  text, \<open>StatusHttpFailed code\<close> the "failed to fetch (error code)" text and
  \<open>StatusException e\<close> the "an error occurred: (exception)" text.
\<close>

datatype status =
    StatusBlank
  | StatusFetching
  | StatusNotFound string
  | StatusFetched nat
  | StatusHttpFailed int
  | StatusException py_error

text \<open>\<open>ft.Icons.FAVORITE\<close> and \<open>ft.Icons.FAVORITE_BORDER\<close>.\<close>

datatype icon = FAVORITE | FAVORITE_BORDER

text \<open>
  The container built by \<open>create_article_container\<close>: the raw article its button is
  bound to, the two texts it shows and the icon chosen when it was built.
\<close>

record container =
  raw_article :: pydict
  shown_title :: pyval
  shown_description :: pyval
  shown_icon :: icon

text \<open>
  A control of \<open>headlines_list\<close>: an article container, or the grey text that
  \<open>display_favorites\<close> shows when there are no favourites.
\<close>

datatype control = ArticleControl container | NoFavoritesText

text \<open>The value of \<open>pagination_text\<close>: empty at first, then "page p/n".\<close>

datatype page_label = LabelBlank | LabelPage int int

text \<open>
  What the favourites file holds: no file, a file that cannot be read or decoded as text,
  a file that is not JSON, or a JSON array of dictionaries (the source types
  \<open>favorites\<close> as \<open>List[Dict]\<close>).
\<close>

datatype file_state = FileAbsent | FileUnreadable | FileBadJson | FileJson "pydict list"

text \<open>What \<open>print\<close> wrote: the two warnings of \<open>load_favorites\<close> and the one of
  \<open>translate_text\<close>.\<close>

datatype printed = FavoritesDecodeWarning | FavoritesUnexpectedWarning | TranslationWarning

text \<open>
  \<open>NewsState\<close> together with the parts of \<open>NewsApp\<close> that the operations read or
  write: the status text, the loading container, the list view, the pagination text and
  row, the selected tab, the favourites file and whether it can be opened for writing,
  and the printed lines.
\<close>

record app =
  current_page :: int
  articles_per_page :: int
  current_country :: string
  favorites :: "pydict list"
  all_articles :: "container list"
  status_text :: status
  loading_visible :: bool
  headlines :: "control list"
  pagination_text :: page_label
  pagination_visible :: bool
  selected_index :: nat
  favorites_file :: file_state
  file_writable :: bool
  stdout :: "printed list"

text \<open>
  The \<open>countries\<close> property, in the order of the source. The display names are
  Japanese strings in the source; their English names stand for them here.
\<close>

definition countries :: "(string \<times> string) list" where
  "countries =
     [(''jp'', ''Japan''), (''us'', ''America''), (''gb'', ''Britain''), (''fr'', ''France''),
      (''de'', ''Germany''), (''kr'', ''Korea''), (''cn'', ''China'')]"

text \<open>\<open>NewsState.__init__\<close> and the components as \<open>init_components\<close> creates them,
  before \<open>load_favorites\<close> has run, over a given file system.\<close>

definition initial_app :: "file_state \<Rightarrow> bool \<Rightarrow> app" where
  "initial_app file writable =
     \<lparr> current_page = 0, articles_per_page = 10, current_country = ''jp'',
       favorites = [], all_articles = [], status_text = StatusBlank,
       loading_visible = False, headlines = [], pagination_text = LabelBlank,
       pagination_visible = False, selected_index = 0,
       favorites_file = file, file_writable = writable, stdout = [] \<rparr>"

section \<open>Pagination\<close>

text \<open>
  Python's \<open>xs[s:e]\<close> for integers: a negative bound counts from the end, and every
  bound is clipped to the list.
\<close>

definition py_slice :: "'a list \<Rightarrow> int \<Rightarrow> int \<Rightarrow> 'a list" where
  "py_slice xs s e =
     (let n = int (length xs);
          lo = (if s < 0 then max (s + n) 0 else min s n);
          hi = (if e < 0 then max (e + n) 0 else min e n)
      in take (nat (hi - lo)) (drop (nat lo) xs))"

text \<open>The page count as \<open>display_articles\<close> and \<open>change_page\<close> compute it:
  \<open>(len(all_articles) + articles_per_page - 1) // articles_per_page\<close>.\<close>

definition total_pages :: "app \<Rightarrow> int" where
  "total_pages s =
     (int (length (all_articles s)) + articles_per_page s - 1) div articles_per_page s"

text \<open>The slice that \<open>display_articles\<close> takes for a page.\<close>

definition current_articles :: "app \<Rightarrow> int \<Rightarrow> container list" where
  "current_articles s page_num =
     (let start_idx = page_num * articles_per_page s;
          end_idx = start_idx + articles_per_page s
      in py_slice (all_articles s) start_idx end_idx)"

definition display_articles :: "int \<Rightarrow> app \<Rightarrow> app" where
  "display_articles page_num s =
     s\<lparr> current_page := page_num,
        headlines := map ArticleControl (current_articles s page_num),
        pagination_text := LabelPage (page_num + 1) (total_pages s) \<rparr>"

definition change_page :: "int \<Rightarrow> app \<Rightarrow> app" where
  "change_page delta s =
     (let new_page = current_page s + delta
      in if 0 \<le> new_page \<and> new_page < total_pages s
         then display_articles new_page s else s)"

section \<open>Favourites\<close>

definition is_favorite :: "app \<Rightarrow> pydict \<Rightarrow> bool" where
  "is_favorite s article =
     list_ex (\<lambda>fav. dict_get fav ''title'' = dict_get article ''title'' \<and>
                    dict_get fav ''description'' = dict_get article ''description'')
             (favorites s)"

definition get_favorite_icon :: "app \<Rightarrow> pydict \<Rightarrow> icon" where
  "get_favorite_icon s article = (if is_favorite s article then FAVORITE else FAVORITE_BORDER)"

text \<open>\<open>xs.remove(x)\<close>: drops the first element equal to \<open>x\<close>; without one it raises
  ValueError (\<open>None\<close> here).\<close>

fun list_remove :: "pydict \<Rightarrow> pydict list \<Rightarrow> pydict list option" where
  "list_remove x [] = None"
| "list_remove x (y # ys) =
     (if dict_eq y x then Some ys else map_option (Cons y) (list_remove x ys))"

definition load_favorites :: "app \<Rightarrow> app" where
  "load_favorites s =
     (case favorites_file s of
        FileAbsent \<Rightarrow> s
      | FileJson favs \<Rightarrow> s\<lparr>favorites := favs\<rparr>
      | FileBadJson \<Rightarrow> s\<lparr>stdout := stdout s @ [FavoritesDecodeWarning], favorites := []\<rparr>
      | FileUnreadable \<Rightarrow>
          s\<lparr>stdout := stdout s @ [FavoritesUnexpectedWarning], favorites := []\<rparr>)"

text \<open>\<open>save_favorites\<close>: \<open>open(FAVORITES_FILE, 'w')\<close> and \<open>json.dump\<close> of the whole
  list. Nothing in the source catches the exception of a failed \<open>open\<close>.\<close>

definition save_favorites :: "app \<Rightarrow> py_error + app" where
  "save_favorites s =
     (if file_writable s then Inr (s\<lparr>favorites_file := FileJson (favorites s)\<rparr>)
      else Inl OSError)"

text \<open>The first statement of \<open>handle_favorite_click\<close>: the \<open>if\<close> that removes or
  appends the article.\<close>

definition toggle_in_list :: "app \<Rightarrow> pydict \<Rightarrow> py_error + app" where
  "toggle_in_list s article =
     (if is_favorite s article
      then (case list_remove article (favorites s) of
              None \<Rightarrow> Inl ValueError
            | Some favs \<Rightarrow> Inr (s\<lparr>favorites := favs\<rparr>))
      else Inr (s\<lparr>favorites := favorites s @ [article]\<rparr>))"

text \<open>
  \<open>handle_favorite_click\<close>. The result holds the new state, the icon assigned to the
  clicked button (\<open>e.control.icon\<close>) and whether a \<open>display_favorites\<close> task was
  created, which is the case when the favourites tab is the selected one.
\<close>

definition handle_favorite_click :: "app \<Rightarrow> pydict \<Rightarrow> py_error + (app \<times> icon \<times> bool)" where
  "handle_favorite_click s article =
     (case toggle_in_list s article of
        Inl e \<Rightarrow> Inl e
      | Inr s1 \<Rightarrow>
          (case save_favorites s1 of
             Inl e \<Rightarrow> Inl e
           | Inr s2 \<Rightarrow>
               Inr (s2, get_favorite_icon s2 article, selected_index s2 = length countries)))"

section \<open>Translation and the article loop\<close>

text \<open>
  The translator is an external service. It is a parameter here: given its own state
  (of any type) and a text it returns the translation, or \<open>None\<close> when the call raises,
  and its next state. So two calls with the same text need not agree.
\<close>

type_synonym 't translator = "'t \<Rightarrow> pyval \<Rightarrow> pyval option \<times> 't"

record news_article =
  title :: pyval
  description :: pyval
  translated_title :: pyval
  translated_description :: pyval
  is_read :: bool

text \<open>The two placeholders of \<open>translate_article\<close>, Japanese literals in the source
  ("no title", "no content").\<close>

definition no_title :: pyval where
  "no_title = PStr ''(no title)''"

definition no_content :: pyval where
  "no_content = PStr ''(no content)''"

fun translate_text :: "'t translator \<Rightarrow> pyval \<Rightarrow> app \<times> 't \<Rightarrow> pyval \<times> app \<times> 't" where
  "translate_text tr text (s, t) =
     (if \<not> truthy text then (PStr [], s, t)
      else (case tr t text of
              (Some translated, t') \<Rightarrow> (translated, s, t')
            | (None, t') \<Rightarrow> (text, s\<lparr>stdout := stdout s @ [TranslationWarning]\<rparr>, t')))"

definition translate_article ::
  "'t translator \<Rightarrow> pydict \<Rightarrow> app \<times> 't \<Rightarrow> news_article \<times> app \<times> 't" where
  "translate_article tr article st =
     (let title = dict_get_default article ''title'' (PStr []);
          description = dict_get_default article ''description'' (PStr []);
          (translated_title, st1) =
             (if truthy title then translate_text tr title st else (no_title, st));
          (translated_description, st2) =
             (if truthy description then translate_text tr description st1
              else (no_content, st1))
      in (\<lparr> title = title, description = description,
             translated_title = translated_title,
             translated_description = translated_description, is_read = False \<rparr>, st2))"

definition create_article_container :: "app \<Rightarrow> pydict \<Rightarrow> news_article \<Rightarrow> container" where
  "create_article_container s raw article =
     \<lparr> raw_article = raw, shown_title = translated_title article,
       shown_description = translated_description article,
       shown_icon = get_favorite_icon s raw \<rparr>"

text \<open>The \<open>for article in ...\<close> loop that \<open>process_news_response\<close> and
  \<open>display_favorites\<close> both run: translate, build the container, append it.\<close>

fun append_translated :: "'t translator \<Rightarrow> pydict list \<Rightarrow> app \<times> 't \<Rightarrow> app \<times> 't" where
  "append_translated tr [] st = st"
| "append_translated tr (article # rest) st =
     (case translate_article tr article st of
        (translated_article, s, t) \<Rightarrow>
          append_translated tr rest
            (s\<lparr>all_articles :=
                 all_articles s @ [create_article_container s article translated_article]\<rparr>, t))"

section \<open>Fetching and displaying\<close>

text \<open>
  What the HTTP request gives: an exception of the session (with its text), or a response
  with a status code and a body. The body is read only when the status is 200; it either
  fails to decode or is a JSON object whose \<open>articles\<close> entry is missing or null
  (\<open>None\<close>) or is a list of dictionaries.
\<close>

datatype json_body = BodyUndecodable string | BodyJson "pydict list option"

datatype http_response = NoResponse string | Response int json_body

definition process_news_response ::
  "'t translator \<Rightarrow> pydict list option \<Rightarrow> string \<Rightarrow> app \<times> 't \<Rightarrow> py_error + app \<times> 't" where
  "process_news_response tr data country_code st =
     (case st of (s, t) \<Rightarrow>
        (let articles = (case data of None \<Rightarrow> [] | Some as \<Rightarrow> as)
         in if articles = []
            then (case map_of countries country_code of
                    None \<Rightarrow> Inl (KeyError country_code)
                  | Some name \<Rightarrow> Inr (s\<lparr>status_text := StatusNotFound name\<rparr>, t))
            else (case append_translated tr articles
                         (s\<lparr>status_text := StatusFetched (length articles)\<rparr>, t) of
                    (s2, t2) \<Rightarrow>
                      Inr (display_articles 0
                             (s2\<lparr>pagination_visible :=
                                   int (length (all_articles s2)) > articles_per_page s2\<rparr>),
                           t2))))"

definition fetch_headlines ::
  "'t translator \<Rightarrow> http_response \<Rightarrow> string \<Rightarrow> app \<times> 't \<Rightarrow> app \<times> 't" where
  "fetch_headlines tr resp country_code st =
     (case st of (s, t) \<Rightarrow>
        (let s1 = s\<lparr> loading_visible := True, status_text := StatusFetching,
                     headlines := [], all_articles := [] \<rparr>;
             outcome =
               (case resp of
                  NoResponse msg \<Rightarrow> Inl (ClientError msg)
                | Response code body \<Rightarrow>
                    if code = 200
                    then (case body of
                            BodyUndecodable msg \<Rightarrow> Inl (DecodeError msg)
                          | BodyJson data \<Rightarrow> process_news_response tr data country_code (s1, t))
                    else Inr (s1\<lparr>status_text := StatusHttpFailed code\<rparr>, t))
         in (case (case outcome of
                     Inl e \<Rightarrow> (s1\<lparr>status_text := StatusException e\<rparr>, t)
                   | Inr st' \<Rightarrow> st') of
               (s2, t2) \<Rightarrow> (s2\<lparr>loading_visible := False\<rparr>, t2))))"

definition display_favorites :: "'t translator \<Rightarrow> app \<times> 't \<Rightarrow> app \<times> 't" where
  "display_favorites tr st =
     (case st of (s, t) \<Rightarrow>
        (let s1 = s\<lparr>headlines := [], all_articles := []\<rparr>
         in if favorites s1 = []
            then (s1\<lparr>headlines := headlines s1 @ [NoFavoritesText]\<rparr>, t)
            else (case append_translated tr (favorites s1) (s1, t) of
                    (s2, t2) \<Rightarrow> (display_articles 0 s2, t2))))"

definition refresh_news :: "'t translator \<Rightarrow> http_response \<Rightarrow> app \<times> 't \<Rightarrow> app \<times> 't" where
  "refresh_news tr resp st = fetch_headlines tr resp (current_country (fst st)) st"

text \<open>
  \<open>handle_tab_change\<close>. The event's control is the tab bar itself, so its
  \<open>selected_index\<close> is the one \<open>handle_favorite_click\<close> reads later.
\<close>

definition handle_tab_change ::
  "'t translator \<Rightarrow> nat option \<Rightarrow> http_response \<Rightarrow> app \<times> 't \<Rightarrow> app \<times> 't" where
  "handle_tab_change tr sel resp st =
     (case sel of
        None \<Rightarrow> st
      | Some i \<Rightarrow>
          (case st of (s, t) \<Rightarrow>
             (let s0 = s\<lparr>selected_index := i\<rparr>
              in if i \<ge> length countries then display_favorites tr (s0, t)
                 else (let country_codes = map fst countries
                       in if i < length country_codes
                          then fetch_headlines tr resp (country_codes ! i)
                                 (s0\<lparr>current_country := country_codes ! i\<rparr>, t)
                          else (s0, t)))))"

text \<open>\<open>NewsApp.__init__\<close> (the state part) and \<open>main\<close>.\<close>

definition new_app :: "file_state \<Rightarrow> bool \<Rightarrow> app" where
  "new_app file writable = load_favorites (initial_app file writable)"

definition main_start ::
  "'t translator \<Rightarrow> http_response \<Rightarrow> file_state \<Rightarrow> bool \<Rightarrow> 't \<Rightarrow> app \<times> 't" where
  "main_start tr resp file writable t = fetch_headlines tr resp ''jp'' (new_app file writable, t)"

section \<open>The controller as a state machine\<close>

text \<open>
  The commands the user interface sends, each with what the outside world answers while
  the command runs. Every handler runs to its end before the next one starts. A click
  whose handler raises leaves the state as it was when the exception was raised.
\<close>

datatype event =
    TabChange "nat option" http_response
  | Refresh http_response
  | ChangePage int
  | FavoriteClick pydict

fun step :: "'t translator \<Rightarrow> event \<Rightarrow> app \<times> 't \<Rightarrow> app \<times> 't" where
  "step tr (TabChange sel resp) st = handle_tab_change tr sel resp st"
| "step tr (Refresh resp) st = refresh_news tr resp st"
| "step tr (ChangePage delta) (s, t) = (change_page delta s, t)"
| "step tr (FavoriteClick article) (s, t) =
     (case toggle_in_list s article of
        Inl e \<Rightarrow> (s, t)
      | Inr s1 \<Rightarrow>
          (case handle_favorite_click s article of
             Inl e \<Rightarrow> (s1, t)
           | Inr (s2, ic, task) \<Rightarrow> if task then display_favorites tr (s2, t) else (s2, t)))"

fun run :: "'t translator \<Rightarrow> event list \<Rightarrow> app \<times> 't \<Rightarrow> app \<times> 't" where
  "run tr [] st = st"
| "run tr (ev # evs) st = run tr evs (step tr ev st)"

text \<open>The invariant of the specification's data model on the page index.\<close>

definition page_invariant :: "app \<Rightarrow> bool" where
  "page_invariant s =
     (if all_articles s = [] then current_page s = 0
      else 0 \<le> current_page s \<and> current_page s < total_pages s)"

text \<open>The part of it that concerns a non-empty list, with the page size the source fixes.\<close>

definition page_index_valid :: "app \<Rightarrow> bool" where
  "page_index_valid s =
     (articles_per_page s = 10
      \<and> (all_articles s = [] \<or> 0 \<le> current_page s \<and> current_page s < total_pages s))"

section \<open>Sample inputs\<close>

text \<open>Concrete articles, containers and states on which the theorems below are run.\<close>

definition sample_article :: "nat \<Rightarrow> pydict" where
  "sample_article i = [(''title'', PStr ''A''), (''description'', PStr ''B''), (''id'', PInt (int i))]"

definition sample_container :: "nat \<Rightarrow> container" where
  "sample_container i =
     \<lparr> raw_article = sample_article i, shown_title = PStr ''A'', shown_description = PStr ''B'',
       shown_icon = FAVORITE_BORDER \<rparr>"

definition sample_app :: "nat \<Rightarrow> int \<Rightarrow> app" where
  "sample_app n page =
     (initial_app FileAbsent True)\<lparr>all_articles := map sample_container [0..<n], current_page := page\<rparr>"

definition stored_favorite :: pydict where
  "stored_favorite = [(''title'', PStr ''A''), (''description'', PStr ''B'')]"

definition title_description_record :: "pydict \<Rightarrow> bool" where
  "title_description_record d = list_all (\<lambda>k. k = ''title'' \<or> k = ''description'') (map fst d)"

definition favorites_app :: "pydict list \<Rightarrow> app" where
  "favorites_app favs = new_app (FileJson favs) True"

definition picky_translator :: "nat translator" where
  "picky_translator n text = (if text = PStr ''A'' then None else Some (PStr ''J''), Suc n)"

definition feed :: "nat \<Rightarrow> http_response" where
  "feed n = Response 200 (BodyJson (Some (map sample_article [0..<n])))"

text \<open>
  What the article loop owes an input article: a container bound to that article, whose
  shown title (description) is the original one whenever that text is non-empty and the
  translator fails on it.
\<close>

definition enriched_from :: "'t translator \<Rightarrow> pydict \<Rightarrow> container \<Rightarrow> bool" where
  "enriched_from tr article c =
     (raw_article c = article
      \<and> (truthy (dict_get_default article ''title'' (PStr []))
           \<and> (\<forall>u. fst (tr u (dict_get_default article ''title'' (PStr []))) = None)
         \<longrightarrow> shown_title c = dict_get_default article ''title'' (PStr []))
      \<and> (truthy (dict_get_default article ''description'' (PStr []))
           \<and> (\<forall>u. fst (tr u (dict_get_default article ''description'' (PStr []))) = None)
         \<longrightarrow> shown_description c = dict_get_default article ''description'' (PStr [])))"

text \<open>The application after its first fetch has brought eleven articles.\<close>

definition after_long_feed :: "app \<times> nat" where
  "after_long_feed = main_start picky_translator (feed 11) FileAbsent True 0"



section \<open>Pagination: page count, slices, page change\<close>

lemma ceil_div_formula:
  fixes n p :: int
  assumes "0 < p"
  shows "(n + p - 1) div p = \<lceil>real_of_int n / real_of_int p\<rceil>"
proof -
  define q where "q = (n + p - 1) div p"
  define r where "r = (n + p - 1) mod p"
  have r: "0 \<le> r" "r < p" using assms by (simp_all add: r_def)
  have "n + p - 1 = q * p + r" by (simp add: q_def r_def)
  then have n: "n = q * p + r - p + 1" by simp
  have up: "n \<le> q * p" using n r by simp
  have lo: "(q - 1) * p < n" using n r by (simp add: algebra_simps)
  have pr: "0 < real_of_int p" using assms by simp
  have "real_of_int n \<le> real_of_int q * real_of_int p"
    using up by (metis of_int_le_iff of_int_mult)
  then have a: "real_of_int n / real_of_int p \<le> real_of_int q"
    using pr by (simp add: pos_divide_le_eq)
  have "real_of_int (q - 1) * real_of_int p < real_of_int n"
    using lo by (metis of_int_less_iff of_int_mult)
  then have b: "real_of_int q - 1 < real_of_int n / real_of_int p"
    using pr by (simp add: pos_less_divide_eq)
  have "\<lceil>real_of_int n / real_of_int p\<rceil> = q"
    by (rule ceiling_unique) (use a b in simp_all)
  then show ?thesis by (simp add: q_def)
qed

lemma pages_cover:
  fixes n p :: int
  assumes "0 < p"
  shows "n \<le> ((n + p - 1) div p) * p"
proof -
  have "(n + p - 1) mod p < p" using assms by simp
  moreover have "n + p - 1 = ((n + p - 1) div p) * p + (n + p - 1) mod p" by simp
  ultimately show ?thesis by linarith
qed

lemma total_pages_nonneg:
  assumes "0 < articles_per_page s"
  shows "0 \<le> total_pages s"
  unfolding total_pages_def using assms by (simp add: pos_imp_zdiv_nonneg_iff)

lemma py_slice_nonneg:
  assumes "0 \<le> a" "0 \<le> b"
  shows "py_slice xs a (a + b) = take (nat b) (drop (nat a) xs)"
proof (cases "a \<le> int (length xs)")
  case True
  show ?thesis
  proof (cases "a + b \<le> int (length xs)")
    case True
    have "nat (a + b - a) = nat b" by simp
    then show ?thesis using assms True \<open>a \<le> int (length xs)\<close>
      by (simp add: py_slice_def Let_def min_def)
  next
    case False
    then have "length (drop (nat a) xs) \<le> nat b" using assms by simp
    then have "take (nat b) (drop (nat a) xs) = drop (nat a) xs" by simp
    moreover have "length (drop (nat a) xs) \<le> nat (int (length xs) - a)"
      using assms by simp
    ultimately show ?thesis using assms True False
      by (simp add: py_slice_def Let_def min_def)
  qed
next
  case False
  then show ?thesis using assms by (simp add: py_slice_def Let_def min_def)
qed

lemma current_articles_take_drop:
  assumes "0 < articles_per_page s"
  shows "current_articles s (int i) =
         take (nat (articles_per_page s)) (drop (i * nat (articles_per_page s)) (all_articles s))"
proof -
  have "nat (int i * articles_per_page s) = i * nat (articles_per_page s)"
    using assms by (simp add: nat_mult_distrib)
  moreover have "0 \<le> int i * articles_per_page s" using assms by simp
  ultimately show ?thesis
    using assms py_slice_nonneg [of "int i * articles_per_page s" "articles_per_page s" "all_articles s"]
    by (simp add: current_articles_def Let_def)
qed

lemma concat_pages_take:
  "concat (map (\<lambda>i. take pp (drop (i * pp) xs)) [0..<k]) = take (k * pp) xs"
proof (induction k)
  case 0 show ?case by simp
next
  case (Suc k)
  have "take (k * pp) xs @ take pp (drop (k * pp) xs) = take (k * pp + pp) xs"
    by (simp add: take_add)
  with Suc show ?case by (simp add: add.commute)
qed

text \<open>
  C8. For a positive page size, the page count computed by the code is the ceiling of
  the number of articles divided by the page size; it is 0 for no articles; and the
  slices of the pages 0 .. page count - 1, one after the other, are the list of articles:
  every article is on one page, none twice, none missing.
\<close>

theorem page_count_and_partition:
  assumes "0 < articles_per_page s"
  shows "total_pages s =
           \<lceil>real (length (all_articles s)) / real_of_int (articles_per_page s)\<rceil>
         \<and> (all_articles s = [] \<longrightarrow> total_pages s = 0)
         \<and> concat (map (\<lambda>i. current_articles s (int i)) [0..<nat (total_pages s)])
             = all_articles s"
proof (intro conjI impI)
  show c: "total_pages s =
        \<lceil>real (length (all_articles s)) / real_of_int (articles_per_page s)\<rceil>"
    using ceil_div_formula [OF assms, of "int (length (all_articles s))"]
    by (simp add: total_pages_def)
  show "total_pages s = 0" if "all_articles s = []"
    using that c by simp
  let ?pp = "nat (articles_per_page s)"
  let ?k = "nat (total_pages s)"
  have "int (length (all_articles s)) \<le> total_pages s * articles_per_page s"
    unfolding total_pages_def by (rule pages_cover [OF assms])
  also have "\<dots> = int (?k * ?pp)"
    using assms total_pages_nonneg [OF assms] by simp
  finally have cover: "length (all_articles s) \<le> ?k * ?pp" by linarith
  have "concat (map (\<lambda>i. current_articles s (int i)) [0..<?k])
        = concat (map (\<lambda>i. take ?pp (drop (i * ?pp) (all_articles s))) [0..<?k])"
    by (simp add: current_articles_take_drop [OF assms])
  also have "\<dots> = take (?k * ?pp) (all_articles s)" by (rule concat_pages_take)
  also have "\<dots> = all_articles s" using cover by simp
  finally show "concat (map (\<lambda>i. current_articles s (int i)) [0..<?k]) = all_articles s" .
qed

theorem page_count_and_partition_witness:
  "0 < articles_per_page (sample_app 15 0)
   \<and> total_pages (sample_app 15 0) = 2
   \<and> \<lceil>real (length (all_articles (sample_app 15 0))) / real_of_int (articles_per_page (sample_app 15 0))\<rceil> = 2
   \<and> current_articles (sample_app 15 0) 0 @ current_articles (sample_app 15 0) 1
       = all_articles (sample_app 15 0)"
proof -
  have h: "0 < articles_per_page (sample_app 15 0)"
    by (simp add: sample_app_def initial_app_def)
  have t: "total_pages (sample_app 15 0) = 2"
    by (simp add: sample_app_def initial_app_def total_pages_def)
  have u: "[0..<nat 2] = [0, 1]" by (simp add: upt_rec)
  show ?thesis
    using page_count_and_partition [OF h] h unfolding t u by simp
qed

text \<open>
  C9. \<open>change_page\<close> moves to the current page plus delta when that index is at least 0
  and below the page count, and then shows the slice of that page; otherwise it changes
  nothing at all, so the next page on the last page is a no-op. The list of articles is
  never touched.
\<close>

theorem change_page_moves_or_stays:
  "current_page (change_page delta s) =
     (if 0 \<le> current_page s + delta \<and> current_page s + delta < total_pages s
      then current_page s + delta else current_page s)
   \<and> all_articles (change_page delta s) = all_articles s
   \<and> (0 \<le> current_page s + delta \<and> current_page s + delta < total_pages s
        \<longrightarrow> headlines (change_page delta s)
              = map ArticleControl (current_articles s (current_page s + delta)))
   \<and> (\<not> (0 \<le> current_page s + delta \<and> current_page s + delta < total_pages s)
        \<longrightarrow> change_page delta s = s)
   \<and> (current_page s = total_pages s - 1 \<longrightarrow> change_page 1 s = s)"
  by (simp add: change_page_def display_articles_def Let_def)

theorem change_page_moves_or_stays_witness:
  "current_page (change_page 1 (sample_app 15 0)) = 1
   \<and> map raw_article (current_articles (sample_app 15 1) 1) = map sample_article [10..<15]
   \<and> current_page (sample_app 15 1) = total_pages (sample_app 15 1) - 1
   \<and> change_page 1 (sample_app 15 1) = sample_app 15 1
   \<and> change_page (-1) (sample_app 15 0) = sample_app 15 0"
proof -
  have t: "total_pages (sample_app 15 0) = 2" "total_pages (sample_app 15 1) = 2"
    by (simp_all add: sample_app_def initial_app_def total_pages_def)
  have c: "current_page (sample_app 15 0) = 0" "current_page (sample_app 15 1) = 1"
    by (simp_all add: sample_app_def)
  have sl: "map raw_article (current_articles (sample_app 15 1) 1) = map sample_article [10..<15]"
    by (simp add: sample_app_def initial_app_def current_articles_def py_slice_def Let_def
        sample_container_def sample_article_def drop_map upt_rec)
  show ?thesis
    using change_page_moves_or_stays [of 1 "sample_app 15 0"]
      change_page_moves_or_stays [of 1 "sample_app 15 1"]
      change_page_moves_or_stays [of "-1" "sample_app 15 0"] sl
    by (simp add: t c)
qed

section \<open>Favourites: loading and the toggle\<close>

lemma list_remove_None_iff:
  "list_remove x xs = None \<longleftrightarrow> \<not> list_ex (\<lambda>y. dict_eq y x) xs"
  by (induction xs) auto

text \<open>
  C5. When the favourites file is not valid JSON, \<open>load_favorites\<close> leaves an empty
  favourites list and prints one warning. The function has no exceptional result: its
  handlers catch every exception, so nothing reaches the constructor that calls it.
\<close>

theorem load_favorites_invalid_json:
  assumes "favorites_file s = FileBadJson"
  shows "load_favorites s = s\<lparr>stdout := stdout s @ [FavoritesDecodeWarning], favorites := []\<rparr>
         \<and> favorites (load_favorites s) = []
         \<and> favorites (new_app FileBadJson w) = []
         \<and> stdout (new_app FileBadJson w) = [FavoritesDecodeWarning]"
  using assms by (simp add: load_favorites_def new_app_def initial_app_def)

theorem load_favorites_invalid_json_witness:
  "favorites_file ((initial_app FileBadJson True)\<lparr>favorites := [stored_favorite]\<rparr>) = FileBadJson
   \<and> favorites (load_favorites ((initial_app FileBadJson True)\<lparr>favorites := [stored_favorite]\<rparr>)) = []
   \<and> stdout (load_favorites ((initial_app FileBadJson True)\<lparr>favorites := [stored_favorite]\<rparr>))
       = [FavoritesDecodeWarning]"
proof -
  have h: "favorites_file ((initial_app FileBadJson True)\<lparr>favorites := [stored_favorite]\<rparr>) = FileBadJson"
    by (simp add: initial_app_def)
  show ?thesis
    using load_favorites_invalid_json [OF h] h by (simp add: initial_app_def)
qed

text \<open>
  C10. \<open>is_favorite\<close> compares the title and the description, \<open>list.remove\<close> compares
  whole dictionaries. So \<open>handle_favorite_click\<close> raises ValueError exactly when some stored
  record has the article's title and description and no stored record equals the article,
  and there are a state and an article for which this happens.
\<close>

theorem favorite_click_partial:
  "(handle_favorite_click s article = Inl ValueError
      \<longleftrightarrow> is_favorite s article \<and> \<not> list_ex (\<lambda>fav. dict_eq fav article) (favorites s))
   \<and> (\<exists>s' article'. is_favorite s' article'
          \<and> \<not> list_ex (\<lambda>fav. dict_eq fav article') (favorites s')
          \<and> handle_favorite_click s' article' = Inl ValueError)"
proof
  show a: "handle_favorite_click s article = Inl ValueError
      \<longleftrightarrow> is_favorite s article \<and> \<not> list_ex (\<lambda>fav. dict_eq fav article) (favorites s)"
    for s article
    using list_remove_None_iff [of article "favorites s"]
    by (auto simp: handle_favorite_click_def toggle_in_list_def save_favorites_def
        split: option.splits sum.splits if_splits)
  have "is_favorite (favorites_app [stored_favorite]) (sample_article 1)"
    by (simp add: favorites_app_def new_app_def load_favorites_def initial_app_def
        is_favorite_def stored_favorite_def sample_article_def dict_get_def)
  moreover have "\<not> list_ex (\<lambda>fav. dict_eq fav (sample_article 1))
                    (favorites (favorites_app [stored_favorite]))"
    by (simp add: favorites_app_def new_app_def load_favorites_def initial_app_def
        stored_favorite_def sample_article_def dict_eq_def)
  ultimately show "\<exists>s' article'. is_favorite s' article'
          \<and> \<not> list_ex (\<lambda>fav. dict_eq fav article') (favorites s')
          \<and> handle_favorite_click s' article' = Inl ValueError"
    using a by blast
qed

theorem favorite_click_partial_witness:
  "is_favorite (favorites_app [stored_favorite]) (sample_article 1)
   \<and> \<not> dict_eq stored_favorite (sample_article 1)
   \<and> handle_favorite_click (favorites_app [stored_favorite]) (sample_article 1) = Inl ValueError"
proof -
  have f: "favorites (favorites_app [stored_favorite]) = [stored_favorite]"
    by (simp add: favorites_app_def new_app_def load_favorites_def initial_app_def)
  have i: "is_favorite (favorites_app [stored_favorite]) (sample_article 1)"
    unfolding is_favorite_def f
    by (simp add: stored_favorite_def sample_article_def dict_get_def)
  have n: "\<not> dict_eq stored_favorite (sample_article 1)"
    by (simp add: stored_favorite_def sample_article_def dict_eq_def)
  show ?thesis
    using favorite_click_partial [of "favorites_app [stored_favorite]" "sample_article 1"] i n
    by (simp add: f)
qed

lemma dict_eq_map_of: "dict_eq a b \<longleftrightarrow> map_of a = map_of b"
proof
  assume e: "dict_eq a b"
  show "map_of a = map_of b"
  proof (rule ext)
    fix k
    show "map_of a k = map_of b k"
    proof (cases "k \<in> set (map fst a @ map fst b)")
      case True
      then show ?thesis using e by (simp add: dict_eq_def list_all_iff)
    next
      case False
      then have "map_of a k = None" "map_of b k = None"
        by (simp_all add: map_of_eq_None_iff)
      then show ?thesis by simp
    qed
  qed
next
  assume "map_of a = map_of b"
  then show "dict_eq a b" by (simp add: dict_eq_def list_all_iff)
qed

lemma dict_eq_is_favorite:
  assumes "list_ex (\<lambda>fav. dict_eq fav article) (favorites s)"
  shows "is_favorite s article"
proof -
  from assms obtain fav where
    m: "fav \<in> set (favorites s)" and e: "map_of fav = map_of article"
    by (auto simp: list_ex_iff dict_eq_map_of)
  have "dict_get fav k = dict_get article k" for k
    by (simp add: dict_get_def e)
  with m show ?thesis unfolding is_favorite_def list_ex_iff by blast
qed

lemma list_remove_appended:
  assumes "\<not> list_ex (\<lambda>y. dict_eq y a) xs"
  shows "list_remove a (xs @ [a]) = Some xs"
  using assms by (induction xs) (simp_all add: dict_eq_map_of)

lemma is_favorite_appended: "is_favorite (s\<lparr>favorites := favorites s @ [a]\<rparr>) a"
  by (simp add: is_favorite_def)

text \<open>
  Two clicks on an article that was no favourite, with a writable file, do restore the
  list: the first appends the article, the second removes that same record.
\<close>

lemma double_toggle_restores_new_article:
  assumes "\<not> is_favorite s a" "file_writable s"
  shows "\<exists>s1 i1 k1 s2 i2 k2.
           handle_favorite_click s a = Inr (s1, i1, k1)
           \<and> handle_favorite_click s1 a = Inr (s2, i2, k2)
           \<and> is_favorite s1 a \<and> favorites s2 = favorites s \<and> \<not> is_favorite s2 a"
proof -
  define s1 where "s1 = s\<lparr>favorites := favorites s @ [a], favorites_file := FileJson (favorites s @ [a])\<rparr>"
  have h1: "handle_favorite_click s a = Inr (s1, get_favorite_icon s1 a, selected_index s1 = length countries)"
    using assms
    by (simp add: handle_favorite_click_def toggle_in_list_def save_favorites_def s1_def)
  have f1: "is_favorite s1 a" by (simp add: s1_def is_favorite_def)
  have no: "\<not> list_ex (\<lambda>y. dict_eq y a) (favorites s)"
    using assms(1) dict_eq_is_favorite by blast
  have rm: "list_remove a (favorites s1) = Some (favorites s)"
    using list_remove_appended [OF no] by (simp add: s1_def)
  define s2 where "s2 = s1\<lparr>favorites := favorites s, favorites_file := FileJson (favorites s)\<rparr>"
  have h2: "handle_favorite_click s1 a = Inr (s2, get_favorite_icon s2 a, selected_index s2 = length countries)"
    using f1 rm assms(2)
    by (simp add: handle_favorite_click_def toggle_in_list_def save_favorites_def s2_def s1_def)
  have f2: "favorites s2 = favorites s" by (simp add: s2_def)
  have "\<not> is_favorite s2 a" using assms(1) by (simp add: is_favorite_def f2)
  with h1 h2 f1 f2 show ?thesis by blast
qed


lemma new_app_absent_simps:
  "favorites (new_app FileAbsent True) = []"
  "file_writable (new_app FileAbsent True) = True"
  by (simp_all add: new_app_def load_favorites_def initial_app_def)

lemma first_favorite_saved_whole:
  "\<exists>s' ic task. handle_favorite_click (new_app FileAbsent True) (sample_article 1)
       = Inr (s', ic, task) \<and> favorites_file s' = FileJson [sample_article 1]"
  by (simp add: handle_favorite_click_def toggle_in_list_def save_favorites_def
      is_favorite_def new_app_absent_simps)

text \<open>
  C7, as stated, fails: the record written to the file is the whole article dictionary.
  After the first click on an article that has an \<open>id\<close> entry, the file holds a record
  with that entry, so not every saved record consists of a title and a description only.
\<close>

theorem saved_file_keeps_other_fields:
  "\<not> (\<forall>s article s' ic task.
         handle_favorite_click s article = Inr (s', ic, task)
         \<longrightarrow> (\<exists>favs. favorites_file s' = FileJson favs
                     \<and> list_all title_description_record favs))"
proof
  assume a: "\<forall>s article s' ic task.
         handle_favorite_click s article = Inr (s', ic, task)
         \<longrightarrow> (\<exists>favs. favorites_file s' = FileJson favs
                     \<and> list_all title_description_record favs)"
  obtain s' ic task where
    h: "handle_favorite_click (new_app FileAbsent True) (sample_article 1) = Inr (s', ic, task)"
    and f: "favorites_file s' = FileJson [sample_article 1]"
    using first_favorite_saved_whole by blast
  from a h obtain favs where
    "favorites_file s' = FileJson favs" "list_all title_description_record favs"
    by blast
  with f have "title_description_record (sample_article 1)" by simp
  then show False by (simp add: title_description_record_def sample_article_def)
qed

text \<open>
  C7, amended. After every click that completes, the file holds exactly the favourites
  list of the new state, whatever it held before: one record per favourite, each record
  the complete article dictionary. The new list is the old one with the article appended
  when it was no favourite, and with the first equal record removed when it was one.
\<close>

theorem saved_file_is_favorites_list:
  assumes "handle_favorite_click s article = Inr (s', ic, task)"
  shows "favorites_file s' = FileJson (favorites s')
         \<and> (if is_favorite s article
            then list_remove article (favorites s) = Some (favorites s')
            else favorites s' = favorites s @ [article])"
  using assms
  by (auto simp: handle_favorite_click_def toggle_in_list_def save_favorites_def
      split: option.splits sum.splits if_splits)

theorem saved_file_is_favorites_list_witness:
  "\<exists>s' ic task.
     handle_favorite_click (new_app FileAbsent True) (sample_article 1) = Inr (s', ic, task)
     \<and> favorites_file s' = FileJson (favorites s')
     \<and> favorites s' = [sample_article 1]"
proof -
  obtain s' ic task where
    h: "handle_favorite_click (new_app FileAbsent True) (sample_article 1) = Inr (s', ic, task)"
    using first_favorite_saved_whole by blast
  have "\<not> is_favorite (new_app FileAbsent True) (sample_article 1)"
    by (simp add: is_favorite_def new_app_absent_simps)
  then show ?thesis
    using saved_file_is_favorites_list [OF h] h by (simp add: new_app_absent_simps)
qed

subsection \<open>Two clicks on the same article\<close>










section \<open>Translation: fallback and the article loop\<close>

lemma translate_text_frame:
  "\<exists>out. fst (snd (translate_text tr x (s, t))) = s\<lparr>stdout := out\<rparr>"
proof (cases "truthy x")
  case False
  then have "fst (snd (translate_text tr x (s, t))) = s\<lparr>stdout := stdout s\<rparr>" by simp
  then show ?thesis by blast
next
  case True
  obtain r t' where r: "tr t x = (r, t')" by (cases "tr t x")
  show ?thesis
  proof (cases r)
    case None
    with True r show ?thesis by auto
  next
    case (Some y)
    with True r have "fst (snd (translate_text tr x (s, t))) = s\<lparr>stdout := stdout s\<rparr>" by simp
    then show ?thesis by blast
  qed
qed

lemma translate_text_fails:
  assumes "truthy x" "fst (tr t x) = None"
  shows "fst (translate_text tr x (s, t)) = x"
proof -
  obtain t' where "tr t x = (None, t')" using assms(2) by (cases "tr t x") auto
  with assms(1) show ?thesis by simp
qed

lemma translate_article_result:
  fixes tr :: "'t translator"
  shows "\<exists>na out t'. translate_article tr article (s, t) = (na, s\<lparr>stdout := out\<rparr>, t')
      \<and> (truthy (dict_get_default article ''title'' (PStr []))
           \<and> (\<forall>u. fst (tr u (dict_get_default article ''title'' (PStr []))) = None)
         \<longrightarrow> translated_title na = dict_get_default article ''title'' (PStr []))
      \<and> (truthy (dict_get_default article ''description'' (PStr []))
           \<and> (\<forall>u. fst (tr u (dict_get_default article ''description'' (PStr []))) = None)
         \<longrightarrow> translated_description na = dict_get_default article ''description'' (PStr []))"
proof -
  let ?x = "dict_get_default article ''title'' (PStr [])"
  let ?y = "dict_get_default article ''description'' (PStr [])"
  define r1 where "r1 = (if truthy ?x then translate_text tr ?x (s, t) else (no_title, s, t))"
  obtain a s1 t1 where r1: "r1 = (a, s1, t1)" by (cases r1)
  have f1: "\<exists>out. s1 = s\<lparr>stdout := out\<rparr>"
  proof (cases "truthy ?x")
    case True
    then show ?thesis using translate_text_frame [of tr ?x s t] r1 by (simp add: r1_def)
  next
    case False
    then have "s1 = s\<lparr>stdout := stdout s\<rparr>" using r1 by (simp add: r1_def)
    then show ?thesis by blast
  qed
  have a: "truthy ?x \<and> (\<forall>u. fst (tr u ?x) = None) \<longrightarrow> a = ?x"
    using translate_text_fails [of ?x tr t s] r1 by (auto simp: r1_def)
  define r2 where "r2 = (if truthy ?y then translate_text tr ?y (s1, t1) else (no_content, s1, t1))"
  obtain b s2 t2 where r2: "r2 = (b, s2, t2)" by (cases r2)
  have f2: "\<exists>out. s2 = s1\<lparr>stdout := out\<rparr>"
  proof (cases "truthy ?y")
    case True
    then show ?thesis using translate_text_frame [of tr ?y s1 t1] r2 by (simp add: r2_def)
  next
    case False
    then have "s2 = s1\<lparr>stdout := stdout s1\<rparr>" using r2 by (simp add: r2_def)
    then show ?thesis by blast
  qed
  have b: "truthy ?y \<and> (\<forall>u. fst (tr u ?y) = None) \<longrightarrow> b = ?y"
    using translate_text_fails [of ?y tr t1 s1] r2 by (auto simp: r2_def)
  define na where "na = \<lparr> title = ?x, description = ?y, translated_title = a,
            translated_description = b, is_read = False \<rparr>"
  have sel: "translated_title na = a" "translated_description na = b"
    by (simp_all add: na_def)
  have res: "translate_article tr article (s, t) = (na, s2, t2)"
    using r1 r2 by (simp add: translate_article_def Let_def r1_def r2_def na_def)
  from f1 f2 obtain out where o: "s2 = s\<lparr>stdout := out\<rparr>" by auto
  show ?thesis using res a b unfolding o sel [symmetric] by blast
qed

lemma append_translated_result:
  fixes tr :: "'t translator"
  shows "\<exists>cs out t'. append_translated tr articles (s, t)
            = (s\<lparr>stdout := out, all_articles := all_articles s @ cs\<rparr>, t')
         \<and> list_all2 (enriched_from tr) articles cs
         \<and> list_all (\<lambda>c. shown_icon c = get_favorite_icon s (raw_article c)) cs"
proof (induction articles arbitrary: s t)
  case Nil
  have "append_translated tr [] (s, t)
        = (s\<lparr>stdout := stdout s, all_articles := all_articles s @ []\<rparr>, t)" by simp
  then show ?case
    by (intro exI [of _ "[]"] exI [of _ "stdout s"] exI [of _ t]) simp
next
  case (Cons article rest)
  obtain na out t1 where
    ta: "translate_article tr article (s, t) = (na, s\<lparr>stdout := out\<rparr>, t1)"
    and x: "truthy (dict_get_default article ''title'' (PStr []))
           \<and> (\<forall>u. fst (tr u (dict_get_default article ''title'' (PStr []))) = None)
         \<longrightarrow> translated_title na = dict_get_default article ''title'' (PStr [])"
    and y: "truthy (dict_get_default article ''description'' (PStr []))
           \<and> (\<forall>u. fst (tr u (dict_get_default article ''description'' (PStr []))) = None)
         \<longrightarrow> translated_description na = dict_get_default article ''description'' (PStr [])"
    using translate_article_result [of tr article s t] by blast
  define c where "c = create_article_container (s\<lparr>stdout := out\<rparr>) article na"
  define s1 where "s1 = s\<lparr>stdout := out, all_articles := all_articles s @ [c]\<rparr>"
  have stepeq: "append_translated tr (article # rest) (s, t) = append_translated tr rest (s1, t1)"
    using ta by (simp add: c_def s1_def)
  from Cons.IH [of s1 t1] obtain cs out' t' where
    r: "append_translated tr rest (s1, t1)
          = (s1\<lparr>stdout := out', all_articles := all_articles s1 @ cs\<rparr>, t')"
    and l: "list_all2 (enriched_from tr) rest cs"
    and ic: "list_all (\<lambda>c. shown_icon c = get_favorite_icon s1 (raw_article c)) cs"
    by blast
  have e: "enriched_from tr article c"
    using x y by (simp add: enriched_from_def c_def create_article_container_def)
  have icon_same: "get_favorite_icon s1 = get_favorite_icon s"
    by (rule ext) (simp add: get_favorite_icon_def is_favorite_def s1_def)
  have ic0: "shown_icon c = get_favorite_icon s (raw_article c)"
    by (simp add: c_def create_article_container_def get_favorite_icon_def is_favorite_def)
  have "append_translated tr (article # rest) (s, t)
        = (s\<lparr>stdout := out', all_articles := all_articles s @ (c # cs)\<rparr>, t')"
    using stepeq r by (simp add: s1_def)
  moreover have "list_all2 (enriched_from tr) (article # rest) (c # cs)"
    using e l by simp
  moreover have "list_all (\<lambda>c. shown_icon c = get_favorite_icon s (raw_article c)) (c # cs)"
    using ic ic0 by (simp add: icon_same)
  ultimately show ?case by blast
qed

lemma enriched_from_raw:
  "list_all2 (enriched_from tr) xs ys \<Longrightarrow> map raw_article ys = xs"
  by (induction xs ys rule: list_all2_induct) (simp_all add: enriched_from_def)

section \<open>What a fetch leaves behind\<close>

lemma process_news_response_nonempty:
  fixes tr :: "'t translator"
  assumes "articles \<noteq> []"
  shows "\<exists>cs out t'.
           process_news_response tr (Some articles) code (s, t)
             = Inr (display_articles 0
                      (s\<lparr> status_text := StatusFetched (length articles), stdout := out,
                          all_articles := all_articles s @ cs,
                          pagination_visible :=
                            int (length (all_articles s @ cs)) > articles_per_page s \<rparr>), t')
         \<and> list_all2 (enriched_from tr) articles cs"
proof -
  let ?s0 = "s\<lparr>status_text := StatusFetched (length articles)\<rparr>"
  obtain cs out t' where
    r: "append_translated tr articles (?s0, t)
          = (?s0\<lparr>stdout := out, all_articles := all_articles ?s0 @ cs\<rparr>, t')"
    and l: "list_all2 (enriched_from tr) articles cs"
    using append_translated_result [of tr articles ?s0 t] by blast
  have "process_news_response tr (Some articles) code (s, t)
             = Inr (display_articles 0
                      (s\<lparr> status_text := StatusFetched (length articles), stdout := out,
                          all_articles := all_articles s @ cs,
                          pagination_visible :=
                            int (length (all_articles s @ cs)) > articles_per_page s \<rparr>), t')"
    using assms r by (simp add: process_news_response_def)
  with l show ?thesis by blast
qed

lemma fetch_headlines_nonempty:
  fixes tr :: "'t translator"
  assumes "articles \<noteq> []"
  shows "\<exists>cs out t'.
           fetch_headlines tr (Response 200 (BodyJson (Some articles))) code (s, t)
             = (s\<lparr> current_page := 0, all_articles := cs,
                   status_text := StatusFetched (length articles), loading_visible := False,
                   headlines := map ArticleControl (py_slice cs 0 (articles_per_page s)),
                   pagination_text :=
                     LabelPage 1 ((int (length cs) + articles_per_page s - 1)
                                    div articles_per_page s),
                   pagination_visible := int (length cs) > articles_per_page s,
                   stdout := out \<rparr>, t')
         \<and> list_all2 (enriched_from tr) articles cs"
proof -
  let ?s1 = "s\<lparr> loading_visible := True, status_text := StatusFetching,
                  headlines := [], all_articles := [] \<rparr>"
  obtain cs out t' where
    p: "process_news_response tr (Some articles) code (?s1, t)
             = Inr (display_articles 0
                      (?s1\<lparr> status_text := StatusFetched (length articles), stdout := out,
                          all_articles := all_articles ?s1 @ cs,
                          pagination_visible :=
                            int (length (all_articles ?s1 @ cs)) > articles_per_page ?s1 \<rparr>), t')"
    and l: "list_all2 (enriched_from tr) articles cs"
    using process_news_response_nonempty [OF assms, of tr code ?s1 t] by blast
  have "fetch_headlines tr (Response 200 (BodyJson (Some articles))) code (s, t)
             = (s\<lparr> current_page := 0, all_articles := cs,
                   status_text := StatusFetched (length articles), loading_visible := False,
                   headlines := map ArticleControl (py_slice cs 0 (articles_per_page s)),
                   pagination_text :=
                     LabelPage 1 ((int (length cs) + articles_per_page s - 1)
                                    div articles_per_page s),
                   pagination_visible := int (length cs) > articles_per_page s,
                   stdout := out \<rparr>, t')"
    unfolding fetch_headlines_def
    by (simp add: p Let_def display_articles_def current_articles_def total_pages_def)
  with l show ?thesis by blast
qed

lemma fetch_headlines_no_articles:
  fixes tr :: "'t translator"
  assumes "resp = NoResponse msg \<or> resp = Response code b \<and> code \<noteq> 200
           \<or> resp = Response 200 (BodyUndecodable msg) \<or> resp = Response 200 (BodyJson None)
           \<or> resp = Response 200 (BodyJson (Some []))"
  shows "fetch_headlines tr resp country_code (s, t)
           = (s\<lparr> loading_visible := False,
                 status_text := status_text (fst (fetch_headlines tr resp country_code (s, t))),
                 headlines := [], all_articles := [] \<rparr>, t)"
  using assms
  by (auto simp: fetch_headlines_def process_news_response_def Let_def split: option.splits)

lemma fetch_headlines_zero_articles:
  fixes tr :: "'t translator"
  assumes "map_of countries country_code = Some name"
  shows "fetch_headlines tr (Response 200 (BodyJson (Some []))) country_code (s, t)
           = (s\<lparr> loading_visible := False, status_text := StatusNotFound name,
                 headlines := [], all_articles := [] \<rparr>, t)"
  using assms by (simp add: fetch_headlines_def process_news_response_def Let_def)

lemma fetch_headlines_no_articles_fields:
  fixes tr :: "'t translator"
  assumes "resp = NoResponse msg \<or> resp = Response code b \<and> code \<noteq> 200
           \<or> resp = Response 200 (BodyUndecodable msg) \<or> resp = Response 200 (BodyJson None)
           \<or> resp = Response 200 (BodyJson (Some []))"
  shows "all_articles (fst (fetch_headlines tr resp country_code (s, t))) = []"
    and "current_page (fst (fetch_headlines tr resp country_code (s, t))) = current_page s"
    and "pagination_visible (fst (fetch_headlines tr resp country_code (s, t)))
           = pagination_visible s"
    and "articles_per_page (fst (fetch_headlines tr resp country_code (s, t)))
           = articles_per_page s"
  using assms
  by (auto simp: fetch_headlines_def process_news_response_def Let_def split: option.splits)

section \<open>Translation failures in a fetched batch\<close>

text \<open>
  C3. A call of \<open>translate_text\<close> on a non-empty text whose translation raises returns
  that text unchanged. And whatever the translator does, a fetched list of articles
  becomes a list of containers of the same length and order, each bound to its article;
  where the translator fails on an article's non-empty title or description, the
  container shows the original text of that field.
\<close>

theorem translation_failure_keeps_article:
  fixes tr :: "'t translator"
  shows "(truthy text \<and> fst (tr t text) = None
            \<longrightarrow> fst (translate_text tr text (s, t)) = text)
         \<and> list_all2 (enriched_from tr) articles
              (all_articles (fst (fetch_headlines tr (Response 200 (BodyJson (Some articles)))
                                   code (s, t))))
         \<and> map raw_article
              (all_articles (fst (fetch_headlines tr (Response 200 (BodyJson (Some articles)))
                                   code (s, t)))) = articles"
proof -
  let ?R = "all_articles (fst (fetch_headlines tr (Response 200 (BodyJson (Some articles)))
                                   code (s, t)))"
  have l: "list_all2 (enriched_from tr) articles ?R"
  proof (cases "articles = []")
    case True
    have "?R = []"
      using fetch_headlines_no_articles_fields(1)
              [of "Response 200 (BodyJson (Some []))" _ _ _ tr code s t]
      by (simp add: True)
    with True show ?thesis by simp
  next
    case False
    from fetch_headlines_nonempty [OF False, of tr code s t] obtain cs out t' where
      e: "fetch_headlines tr (Response 200 (BodyJson (Some articles))) code (s, t)
             = (s\<lparr> current_page := 0, all_articles := cs,
                   status_text := StatusFetched (length articles), loading_visible := False,
                   headlines := map ArticleControl (py_slice cs 0 (articles_per_page s)),
                   pagination_text :=
                     LabelPage 1 ((int (length cs) + articles_per_page s - 1)
                                    div articles_per_page s),
                   pagination_visible := int (length cs) > articles_per_page s,
                   stdout := out \<rparr>, t')"
      and l: "list_all2 (enriched_from tr) articles cs"
      by blast
    have "?R = cs" unfolding e by simp
    with l show ?thesis by simp
  qed
  have m: "map raw_article ?R = articles"
    using l by (rule enriched_from_raw)
  show ?thesis
    using l m translate_text_fails [of "text" tr t s] by blast
qed

theorem translation_failure_keeps_article_witness:
  "truthy (PStr ''A'') \<and> fst (picky_translator 0 (PStr ''A'')) = None
   \<and> fst (translate_text picky_translator (PStr ''A'') (new_app FileAbsent True, 0)) = PStr ''A''
   \<and> map raw_article (all_articles (fst (fetch_headlines picky_translator
         (Response 200 (BodyJson (Some [sample_article 0, sample_article 1]))) ''jp''
         (new_app FileAbsent True, 0)))) = [sample_article 0, sample_article 1]
   \<and> map shown_title (all_articles (fst (fetch_headlines picky_translator
         (Response 200 (BodyJson (Some [sample_article 0, sample_article 1]))) ''jp''
         (new_app FileAbsent True, 0)))) = [PStr ''A'', PStr ''A'']"
proof -
  let ?R = "all_articles (fst (fetch_headlines picky_translator
         (Response 200 (BodyJson (Some [sample_article 0, sample_article 1]))) ''jp''
         (new_app FileAbsent True, 0)))"
  note w = translation_failure_keeps_article [of "PStr ''A''" picky_translator 0
      "new_app FileAbsent True" "[sample_article 0, sample_article 1]" "''jp''"]
  have h: "truthy (PStr ''A'')" "fst (picky_translator 0 (PStr ''A'')) = None"
    "\<forall>u. fst (picky_translator u (PStr ''A'')) = None"
    by (simp_all add: picky_translator_def)
  have g: "dict_get_default (sample_article i) ''title'' (PStr []) = PStr ''A''" for i
    by (simp add: sample_article_def dict_get_default_def)
  from w have l: "list_all2 (enriched_from picky_translator)
      [sample_article 0, sample_article 1] ?R" by blast
  then obtain c0 c1 where r: "?R = [c0, c1]"
    and e: "enriched_from picky_translator (sample_article 0) c0"
      "enriched_from picky_translator (sample_article 1) c1"
    by (auto simp: list_all2_Cons1)
  have "shown_title c0 = PStr ''A''" "shown_title c1 = PStr ''A''"
    using e h by (simp_all add: enriched_from_def g)
  then have "map shown_title ?R = [PStr ''A'', PStr ''A'']" unfolding r by simp
  with w h show ?thesis by blast
qed

section \<open>The controller after a fetch without articles\<close>

lemma feed_zero: "feed 0 = Response 200 (BodyJson (Some []))"
  by (simp add: feed_def)

lemma after_long_feed_fields:
  "length (all_articles (fst after_long_feed)) = 11"
  "current_page (fst after_long_feed) = 0"
  "articles_per_page (fst after_long_feed) = 10"
  "pagination_visible (fst after_long_feed) = True"
  "current_country (fst after_long_feed) = ''jp''"
proof -
  let ?arts = "map sample_article [0..<11]"
  let ?s = "new_app FileAbsent True"
  have ne: "?arts \<noteq> []" by (simp add: upt_rec)
  have n: "articles_per_page ?s = 10" "current_country ?s = ''jp''"
    by (simp_all add: new_app_def load_favorites_def initial_app_def)
  from fetch_headlines_nonempty [OF ne, of picky_translator "''jp''" ?s 0]
  obtain cs out t' where
    e: "fetch_headlines picky_translator (Response 200 (BodyJson (Some ?arts))) ''jp'' (?s, 0)
          = (?s\<lparr> current_page := 0, all_articles := cs,
                   status_text := StatusFetched (length ?arts), loading_visible := False,
                   headlines := map ArticleControl (py_slice cs 0 (articles_per_page ?s)),
                   pagination_text :=
                     LabelPage 1 ((int (length cs) + articles_per_page ?s - 1)
                                    div articles_per_page ?s),
                   pagination_visible := int (length cs) > articles_per_page ?s,
                   stdout := out \<rparr>, t')"
    and l: "list_all2 (enriched_from picky_translator) ?arts cs"
    by blast
  have len: "length cs = 11" using list_all2_lengthD [OF l] by simp
  have a: "after_long_feed
             = fetch_headlines picky_translator (Response 200 (BodyJson (Some ?arts))) ''jp'' (?s, 0)"
    by (simp add: after_long_feed_def main_start_def feed_def)
  show "length (all_articles (fst after_long_feed)) = 11" unfolding a e using len by simp
  show "current_page (fst after_long_feed) = 0" unfolding a e by simp
  show "articles_per_page (fst after_long_feed) = 10" unfolding a e using n by simp
  show "pagination_visible (fst after_long_feed) = True" unfolding a e using len n by simp
  show "current_country (fst after_long_feed) = ''jp''" unfolding a e using n by simp
qed

lemma jp_name: "map_of countries ''jp'' = Some ''Japan''"
  by (simp add: countries_def)

text \<open>
  C6 (the code departs from the claim). The first fetch brings eleven articles, so the
  pagination row is shown. The refresh that follows succeeds with zero articles: the
  list is empty and the status is the "no news found" text, but the pagination row is
  still shown, because \<open>process_news_response\<close> returns before the line that sets its
  visibility.
\<close>

theorem empty_fetch_keeps_pagination_row:
  "all_articles (fst (refresh_news picky_translator (feed 0) after_long_feed)) = []
   \<and> status_text (fst (refresh_news picky_translator (feed 0) after_long_feed))
       = StatusNotFound ''Japan''
   \<and> pagination_visible (fst (refresh_news picky_translator (feed 0) after_long_feed)) = True"
proof -
  obtain s0 t0 where st: "after_long_feed = (s0, t0)" by (cases after_long_feed)
  have f: "pagination_visible s0 = True" "current_country s0 = ''jp''"
    using after_long_feed_fields unfolding st by simp_all
  have r: "refresh_news picky_translator (feed 0) after_long_feed
        = (s0\<lparr> loading_visible := False, status_text := StatusNotFound ''Japan'',
                headlines := [], all_articles := [] \<rparr>, t0)"
    using fetch_headlines_zero_articles [OF jp_name, of picky_translator s0 t0]
    by (simp add: refresh_news_def st f feed_zero)
  show ?thesis unfolding r using f by simp
qed

text \<open>
  C1 (the code departs from the claim). After the first fetch has brought eleven
  articles, the user goes to the second page and refreshes; the refresh succeeds with
  zero articles. The list of articles is now empty and \<open>current_page\<close> is still 1: the
  fetch clears the list and nothing resets the page index, so the invariant is broken in
  a state reached by the operations the claim names.
\<close>

theorem empty_fetch_keeps_page_index:
  "all_articles (fst (run picky_translator [ChangePage 1, Refresh (feed 0)] after_long_feed)) = []
   \<and> current_page (fst (run picky_translator [ChangePage 1, Refresh (feed 0)] after_long_feed)) = 1
   \<and> \<not> page_invariant
         (fst (run picky_translator [ChangePage 1, Refresh (feed 0)] after_long_feed))"
proof -
  obtain s0 t0 where st: "after_long_feed = (s0, t0)" by (cases after_long_feed)
  have f: "length (all_articles s0) = 11" "current_page s0 = 0" "articles_per_page s0 = 10"
    using after_long_feed_fields unfolding st by simp_all
  have tp: "total_pages s0 = 2" by (simp add: total_pages_def f)
  define s1 where "s1 = change_page 1 s0"
  have c1: "current_page s1 = 1"
    by (simp add: s1_def change_page_def display_articles_def Let_def f tp)
  define s2 where "s2 = fst (refresh_news picky_translator (feed 0) (s1, t0))"
  have run_eq: "fst (run picky_translator [ChangePage 1, Refresh (feed 0)] after_long_feed) = s2"
    by (simp add: st s1_def s2_def)
  have a: "all_articles s2 = []"
    unfolding s2_def refresh_news_def
    using fetch_headlines_no_articles_fields(1)
            [of "feed 0" _ _ _ picky_translator "current_country s1" s1 t0]
    by (simp add: feed_zero)
  have c: "current_page s2 = 1"
    unfolding s2_def refresh_news_def
    using fetch_headlines_no_articles_fields(2)
            [of "feed 0" _ _ _ picky_translator "current_country s1" s1 t0] c1
    by (simp add: feed_zero)
  show ?thesis unfolding run_eq using a c by (simp add: page_invariant_def)
qed

subsection \<open>The page index while there are articles\<close>

lemma total_pages_pos:
  assumes "articles_per_page s = 10" "all_articles s \<noteq> []"
  shows "0 < total_pages s"
proof -
  have "0 < length (all_articles s)" using assms(2) by simp
  then have "10 \<le> int (length (all_articles s)) + 10 - 1" by linarith
  then have "0 < (int (length (all_articles s)) + 10 - 1) div 10"
    using pos_imp_zdiv_pos_iff [of 10 "int (length (all_articles s)) + 10 - 1"] by linarith
  then show ?thesis unfolding total_pages_def assms(1) .
qed

lemma page_index_valid_frame:
  assumes "all_articles s' = all_articles s" "articles_per_page s' = articles_per_page s"
    "current_page s' = current_page s"
  shows "page_index_valid s' = page_index_valid s"
  by (simp add: page_index_valid_def total_pages_def assms)

lemma first_page_valid:
  assumes "articles_per_page s = 10" "all_articles s \<noteq> []"
  shows "page_index_valid (display_articles 0 s)"
proof -
  let ?s' = "display_articles 0 s"
  have f: "articles_per_page ?s' = 10" "all_articles ?s' \<noteq> []" "current_page ?s' = 0"
    using assms by (simp_all add: display_articles_def)
  show ?thesis
    unfolding page_index_valid_def using f total_pages_pos [OF f(1,2)] by simp
qed

lemma response_cases:
  obtains msg where "resp = NoResponse msg"
  | code b where "resp = Response code b" "code \<noteq> 200"
  | msg where "resp = Response 200 (BodyUndecodable msg)"
  | "resp = Response 200 (BodyJson None)"
  | "resp = Response 200 (BodyJson (Some []))"
  | articles where "resp = Response 200 (BodyJson (Some articles))" "articles \<noteq> []"
proof (cases resp)
  case (NoResponse m)
  then show ?thesis using that(1) by blast
next
  case (Response code b)
  show ?thesis
  proof (cases "code = 200")
    case False
    then show ?thesis using Response that(2) by blast
  next
    case True
    show ?thesis
    proof (cases b)
      case (BodyUndecodable m)
      then show ?thesis using Response True that(3) by blast
    next
      case (BodyJson d)
      show ?thesis
      proof (cases d)
        case None
        then show ?thesis using Response True BodyJson that(4) by blast
      next
        case (Some as)
        then show ?thesis using Response True BodyJson that(5) that(6) by (cases "as = []") auto
      qed
    qed
  qed
qed

lemma fetch_headlines_valid:
  fixes tr :: "'t translator"
  assumes "page_index_valid s"
  shows "page_index_valid (fst (fetch_headlines tr resp code (s, t)))"
proof -
  have pp: "articles_per_page s = 10" using assms by (simp add: page_index_valid_def)
  have empty: "page_index_valid (fst (fetch_headlines tr resp code (s, t)))"
    if "resp = NoResponse msg \<or> resp = Response c b \<and> c \<noteq> 200
           \<or> resp = Response 200 (BodyUndecodable msg) \<or> resp = Response 200 (BodyJson None)
           \<or> resp = Response 200 (BodyJson (Some []))" for msg c b
    using fetch_headlines_no_articles_fields(1,4) [OF that, of tr code s t] pp
    by (simp add: page_index_valid_def)
  show ?thesis
  proof (cases resp rule: response_cases)
    case (6 articles)
    from fetch_headlines_nonempty [OF 6(2), of tr code s t] obtain cs out t' where
      e: "fetch_headlines tr (Response 200 (BodyJson (Some articles))) code (s, t)
             = (s\<lparr> current_page := 0, all_articles := cs,
                   status_text := StatusFetched (length articles), loading_visible := False,
                   headlines := map ArticleControl (py_slice cs 0 (articles_per_page s)),
                   pagination_text :=
                     LabelPage 1 ((int (length cs) + articles_per_page s - 1)
                                    div articles_per_page s),
                   pagination_visible := int (length cs) > articles_per_page s,
                   stdout := out \<rparr>, t')"
      and l: "list_all2 (enriched_from tr) articles cs"
      by blast
    have ne: "cs \<noteq> []" using list_all2_lengthD [OF l] 6(2) by auto
    define s' where "s' = fst (fetch_headlines tr resp code (s, t))"
    have f: "articles_per_page s' = 10" "all_articles s' \<noteq> []" "current_page s' = 0"
      unfolding s'_def 6(1) e using pp ne by simp_all
    show ?thesis
      unfolding s'_def [symmetric] page_index_valid_def
      using f total_pages_pos [OF f(1,2)] by simp
  qed (use empty in blast)+
qed

lemma display_favorites_valid:
  fixes tr :: "'t translator"
  assumes "page_index_valid s"
  shows "page_index_valid (fst (display_favorites tr (s, t)))"
proof (cases "favorites s = []")
  case True
  then show ?thesis using assms by (simp add: display_favorites_def page_index_valid_def)
next
  case False
  have pp: "articles_per_page s = 10" using assms by (simp add: page_index_valid_def)
  let ?s1 = "s\<lparr>headlines := [], all_articles := []\<rparr>"
  from append_translated_result [of tr "favorites s" ?s1 t] obtain cs out t' where
    r: "append_translated tr (favorites s) (?s1, t)
          = (?s1\<lparr>stdout := out, all_articles := all_articles ?s1 @ cs\<rparr>, t')"
    and l: "list_all2 (enriched_from tr) (favorites s) cs"
    by blast
  have ne: "cs \<noteq> []" using list_all2_lengthD [OF l] False by auto
  have d: "fst (display_favorites tr (s, t))
        = display_articles 0 (?s1\<lparr>stdout := out, all_articles := all_articles ?s1 @ cs\<rparr>)"
    using False r by (simp add: display_favorites_def)
  show ?thesis
    unfolding d using pp ne by (intro first_page_valid) simp_all
qed

lemma change_page_valid:
  assumes "page_index_valid s"
  shows "page_index_valid (change_page delta s)"
proof (cases "0 \<le> current_page s + delta \<and> current_page s + delta < total_pages s")
  case False
  then have "change_page delta s = s" by (auto simp: change_page_def Let_def)
  then show ?thesis using assms by simp
next
  case True
  let ?s' = "display_articles (current_page s + delta) s"
  have c: "change_page delta s = ?s'" using True by (simp add: change_page_def Let_def)
  have f: "articles_per_page ?s' = articles_per_page s"
    "current_page ?s' = current_page s + delta"
    "total_pages ?s' = total_pages s"
    by (simp_all add: display_articles_def total_pages_def)
  show ?thesis
    unfolding c page_index_valid_def f using assms True by (simp add: page_index_valid_def)
qed

lemma toggle_in_list_valid:
  assumes "page_index_valid s" "toggle_in_list s article = Inr s1"
  shows "page_index_valid s1"
proof -
  have "all_articles s1 = all_articles s \<and> articles_per_page s1 = articles_per_page s
        \<and> current_page s1 = current_page s"
    using assms(2) by (auto simp: toggle_in_list_def split: if_splits option.splits)
  then show ?thesis using page_index_valid_frame [of s1 s] assms(1) by simp
qed

lemma handle_favorite_click_valid:
  assumes "page_index_valid s" "handle_favorite_click s article = Inr (s2, ic, task)"
  shows "page_index_valid s2"
proof -
  have "all_articles s2 = all_articles s \<and> articles_per_page s2 = articles_per_page s
        \<and> current_page s2 = current_page s"
    using assms(2)
    by (auto simp: handle_favorite_click_def toggle_in_list_def save_favorites_def
        split: if_splits option.splits sum.splits)
  then show ?thesis using page_index_valid_frame [of s2 s] assms(1) by simp
qed

lemma step_valid:
  fixes tr :: "'t translator"
  assumes "page_index_valid (fst st)"
  shows "page_index_valid (fst (step tr ev st))"
proof -
  obtain s t where st: "st = (s, t)" by (cases st)
  have v: "page_index_valid s" using assms st by simp
  show ?thesis
  proof (cases ev)
    case (TabChange sel resp)
    show ?thesis
    proof (cases sel)
      case None
      then show ?thesis using TabChange v st by (simp add: handle_tab_change_def)
    next
      case (Some i)
      have v0: "page_index_valid (s\<lparr>selected_index := i\<rparr>)"
        using v page_index_valid_frame [of "s\<lparr>selected_index := i\<rparr>" s] by simp
      have v1: "page_index_valid (s\<lparr>selected_index := i, current_country := c\<rparr>)" for c
        using v page_index_valid_frame [of "s\<lparr>selected_index := i, current_country := c\<rparr>" s]
        by simp
      show ?thesis
        using TabChange Some st v0 v1
          display_favorites_valid [OF v0, of tr t]
          fetch_headlines_valid [OF v1, of tr resp _ _ t]
        by (simp add: handle_tab_change_def Let_def)
    qed
  next
    case (Refresh resp)
    then show ?thesis
      using st fetch_headlines_valid [OF v, of tr resp "current_country s" t]
      by (simp add: refresh_news_def)
  next
    case (ChangePage delta)
    then show ?thesis using st change_page_valid [OF v] by simp
  next
    case (FavoriteClick article)
    show ?thesis
    proof (cases "toggle_in_list s article")
      case (Inl e)
      then show ?thesis using FavoriteClick st v by simp
    next
      case (Inr s1)
      have v1: "page_index_valid s1" using toggle_in_list_valid [OF v Inr] .
      show ?thesis
      proof (cases "handle_favorite_click s article")
        case (Inl e)
        then show ?thesis using FavoriteClick st Inr v1 by simp
      next
        case hr: (Inr res)
        obtain s2 ic task where res: "res = (s2, ic, task)" by (cases res)
        have v2: "page_index_valid s2"
          using handle_favorite_click_valid [OF v] hr res by simp
        show ?thesis
          using FavoriteClick st Inr hr res v2 display_favorites_valid [OF v2, of tr t]
          by simp
      qed
    qed
  qed
qed

lemma run_valid:
  fixes tr :: "'t translator"
  assumes "page_index_valid (fst st)"
  shows "page_index_valid (fst (run tr evs st))"
  using assms
proof (induction evs arbitrary: st)
  case Nil
  then show ?case by simp
next
  case (Cons ev evs)
  show ?case using Cons.IH [OF step_valid [OF Cons.prems, of tr ev]] by simp
qed

lemma new_app_valid: "page_index_valid (new_app file writable)"
  by (simp add: new_app_def load_favorites_def initial_app_def page_index_valid_def
      split: file_state.splits)

text \<open>
  What every state reached from \<open>main\<close> by the commands does satisfy: the page size is
  10, and while the list of articles is not empty the page index lies between 0 and the
  page count. Only the case of the empty list is left open by the code.
\<close>

lemma reachable_page_index_valid:
  fixes tr :: "'t translator"
  shows "page_index_valid (fst (run tr evs (main_start tr resp file writable t)))"
  unfolding main_start_def
  by (intro run_valid fetch_headlines_valid) (simp add: new_app_valid)

end
